theory Spec2Isabelle
  imports Main
begin

section \<open>JavaScript strings\<close>

text \<open>
  A string is a list of code units; the model covers the code units below 256.
  The helpers follow the ECMAScript definitions of the \<open>String.prototype\<close> methods that
  \<^verbatim>\<open>lib/modules/manager/earthfile/extract.ts\<close> calls.
\<close>

definition variableMarker :: string where
  "variableMarker = ''$''"

definition isLineTerminator :: "char \<Rightarrow> bool" where
  "isLineTerminator c = (c = CHR 0x0A \<or> c = CHR 0x0D)"

definition isWhiteSpace :: "char \<Rightarrow> bool" where
  "isWhiteSpace c = (c = CHR 0x20 \<or> c = CHR 0x09 \<or> c = CHR 0x0A \<or> c = CHR 0x0D
     \<or> c = CHR 0x0B \<or> c = CHR 0x0C \<or> c = CHR 0xA0)"

definition isDigit :: "char \<Rightarrow> bool" where
  "isDigit c = (c \<in> set ''0123456789'')"

definition isWordChar :: "char \<Rightarrow> bool" where
  "isWordChar c =
     (c \<in> set ''abcdefghijklmnopqrstuvwxyzABCDEFGHIJKLMNOPQRSTUVWXYZ0123456789_'')"

text \<open>\<open>s.startsWith(p)\<close>\<close>

fun startsWith :: "string \<Rightarrow> string \<Rightarrow> bool" where
  "startsWith s [] = True"
| "startsWith [] (c # cs) = False"
| "startsWith (d # ds) (c # cs) = (d = c \<and> startsWith ds cs)"

text \<open>
  The first occurrence of \<open>pat\<close> in \<open>s\<close> (\<open>s.indexOf(pat)\<close>), as the text before it and
  the text after it.
\<close>

fun findSub :: "string \<Rightarrow> string \<Rightarrow> (string \<times> string) option" where
  "findSub pat [] = (if pat = [] then Some ([], []) else None)"
| "findSub pat (c # cs) =
     (if startsWith (c # cs) pat then Some ([], drop (length pat) (c # cs))
      else map_option (\<lambda>(b, a). (c # b, a)) (findSub pat cs))"

text \<open>\<open>s.includes(pat)\<close>\<close>

definition strIncludes :: "string \<Rightarrow> string \<Rightarrow> bool" where
  "strIncludes s pat = (findSub pat s \<noteq> None)"

text \<open>
  The expansion of a replacement text (ECMAScript \<open>GetSubstitution\<close>) for a search value
  that is a string, so that there are no captures: \<open>$$\<close> is a dollar sign, \<open>$&\<close> the
  matched text, \<open>$`\<close> the text before the match, \<open>$'\<close> the text after it, and any other
  \<open>$\<close> stands for itself.
\<close>

fun getSubstitution :: "string \<Rightarrow> string \<Rightarrow> string \<Rightarrow> string \<Rightarrow> string" where
  "getSubstitution m b a [] = []"
| "getSubstitution m b a [c] = [c]"
| "getSubstitution m b a (c # d # r) =
     (if c = CHR ''$'' then
        (if d = CHR ''$'' then CHR ''$'' # getSubstitution m b a r
         else if d = CHR ''&'' then m @ getSubstitution m b a r
         else if d = CHR 0x60 then b @ getSubstitution m b a r
         else if d = CHR 0x27 then a @ getSubstitution m b a r
         else c # getSubstitution m b a (d # r))
      else c # getSubstitution m b a (d # r))"

text \<open>\<open>s.replace(pat, repl)\<close> for a string \<open>pat\<close>: only the first occurrence is replaced.\<close>

definition replaceStr :: "string \<Rightarrow> string \<Rightarrow> string \<Rightarrow> string" where
  "replaceStr s pat repl =
     (case findSub pat s of
        None \<Rightarrow> s
      | Some (b, a) \<Rightarrow> b @ getSubstitution pat b a repl @ a)"

text \<open>\<open>s.split(c)\<close> for a separator of one character: the result is never empty.\<close>

fun splitOn :: "char \<Rightarrow> string \<Rightarrow> string list" where
  "splitOn c [] = [[]]"
| "splitOn c (d # ds) =
     (if d = c then [] # splitOn c ds
      else (case splitOn c ds of [] \<Rightarrow> [[d]] | h # t \<Rightarrow> (d # h) # t))"

text \<open>\<open>xs.join(sep)\<close>\<close>

fun joinWith :: "string \<Rightarrow> string list \<Rightarrow> string" where
  "joinWith sep [] = []"
| "joinWith sep [x] = x"
| "joinWith sep (x # y # r) = x @ sep @ joinWith sep (y # r)"

text \<open>\<open>s.trimStart()\<close>\<close>

definition trimStart :: "string \<Rightarrow> string" where
  "trimStart s = dropWhile isWhiteSpace s"

text \<open>A value is truthy when it is present and not the empty string.\<close>

definition orEmpty :: "string option \<Rightarrow> string" where
  "orEmpty v = (case v of None \<Rightarrow> [] | Some s \<Rightarrow> s)"


definition truthy :: "string option \<Rightarrow> bool" where
  "truthy v = (case v of None \<Rightarrow> False | Some s \<Rightarrow> s \<noteq> [])"

text \<open>
  Modelled from the spec: \<open>newlineRegex\<close> of \<^verbatim>\<open>lib/util/regex\<close>, which is not part of the
  sources: a line ends at a line feed, optionally preceded by a carriage return.
  \<open>splitLines content\<close> is \<open>content.split(newlineRegex)\<close>.
\<close>

fun splitLines :: "string \<Rightarrow> string list" where
  "splitLines [] = [[]]"
| "splitLines (c # cs) =
     (if c = CHR 0x0A then [] # splitLines cs
      else if c = CHR 0x0D then
        (case cs of
           [] \<Rightarrow> [[c]]
         | d # ds \<Rightarrow>
             if d = CHR 0x0A then [] # splitLines ds
             else (case splitLines cs of [] \<Rightarrow> [[c]] | h # t \<Rightarrow> (c # h) # t))
      else (case splitLines cs of [] \<Rightarrow> [[c]] | h # t \<Rightarrow> (c # h) # t))"

section \<open>Regular expressions\<close>

text \<open>
  Modelled from the spec: \<open>regEx\<close> of \<^verbatim>\<open>lib/util/regex\<close>, which is not part of the sources,
  is taken to build a regular expression with the semantics of the ECMAScript constructor
  \<open>RegExp\<close>, as \<^verbatim>\<open>new RegExp\<close> in the source does.

  The patterns of the source are terms of \<open>regex\<close>, and \<open>rmatch\<close> gives them the
  backtracking semantics of ECMAScript: the results of matching from a state are listed
  in the order in which a backtracking matcher would try them, so that the first element
  is the match that \<open>exec\<close> reports. A state is the character before the current
  position (for \<open>^\<close>), the rest of the input, and the named groups captured so far (the
  latest first). No pattern of the source has a group under a quantifier, a
  backreference or a lookaround.
\<close>

datatype regex =
    Eps
  | Lit char
  | Str string
  | Cls "char \<Rightarrow> bool"
  | Bol
  | Eol
  | Seq regex regex
  | Alt regex regex
  | Rep nat "nat option" bool regex
  | Grp string regex

record flags =
  ignoreCase :: bool
  multiline :: bool

type_synonym mstate = "char option \<times> string \<times> (string \<times> string) list"

text \<open>
  \<open>Canonicalize\<close> without the \<open>u\<close> flag, for the comparison with a pattern character that
  is ASCII, as every letter in the patterns of the source is: a code unit of 128 or more
  never canonicalizes to an ASCII letter.
\<close>

definition canonicalize :: "bool \<Rightarrow> char \<Rightarrow> char" where
  "canonicalize ic c =
     (if ic then
        (case map_of (zip ''abcdefghijklmnopqrstuvwxyz'' ''ABCDEFGHIJKLMNOPQRSTUVWXYZ'') c of
           Some u \<Rightarrow> u
         | None \<Rightarrow> c)
      else c)"

fun matchStr :: "bool \<Rightarrow> string \<Rightarrow> char option \<Rightarrow> string \<Rightarrow> (char option \<times> string) option" where
  "matchStr ic [] p s = Some (p, s)"
| "matchStr ic (c # cs) p [] = None"
| "matchStr ic (c # cs) p (d # ds) =
     (if canonicalize ic c = canonicalize ic d then matchStr ic cs (Some d) ds else None)"

text \<open>
  ECMAScript \<open>RepeatMatcher\<close>: \<open>lo\<close> and \<open>hi\<close> are the bounds still to serve (\<open>None\<close> is
  no upper bound). Once the lower bound is served, an iteration that consumes nothing is
  rejected, which is what makes the recursion end; a matcher never moves backwards, so
  "consumes nothing" is "the rest is not shorter".
\<close>

function repeatMatcher ::
  "(mstate \<Rightarrow> mstate list) \<Rightarrow> nat \<Rightarrow> nat option \<Rightarrow> bool \<Rightarrow> mstate \<Rightarrow> mstate list" where
  "repeatMatcher m lo hi greedy x =
     (if hi = Some 0 then [x]
      else
        let iter = concat (map (\<lambda>y.
                     if lo = 0 \<and> \<not> length (fst (snd y)) < length (fst (snd x)) then []
                     else repeatMatcher m (lo - 1) (map_option (\<lambda>h. h - 1) hi) greedy y) (m x))
        in if lo \<noteq> 0 then iter
           else if greedy then iter @ [x]
           else x # iter)"
  by pat_completeness auto
termination
  by (relation "measures [\<lambda>(m, lo, hi, g, x). lo, \<lambda>(m, lo, hi, g, x). length (fst (snd x))]")
    auto

declare repeatMatcher.simps [simp del]

primrec rmatch :: "flags \<Rightarrow> regex \<Rightarrow> mstate \<Rightarrow> mstate list" where
  "rmatch f Eps = (\<lambda>st. [st])"
| "rmatch f (Lit c) = (\<lambda>st. case st of (p, s, caps) \<Rightarrow>
     (case s of
        [] \<Rightarrow> []
      | d # ds \<Rightarrow>
          if canonicalize (ignoreCase f) c = canonicalize (ignoreCase f) d
          then [(Some d, ds, caps)] else []))"
| "rmatch f (Str cs) = (\<lambda>st. case st of (p, s, caps) \<Rightarrow>
     (case matchStr (ignoreCase f) cs p s of
        None \<Rightarrow> []
      | Some (p', s') \<Rightarrow> [(p', s', caps)]))"
| "rmatch f (Cls P) = (\<lambda>st. case st of (p, s, caps) \<Rightarrow>
     (case s of
        [] \<Rightarrow> []
      | d # ds \<Rightarrow> if P d then [(Some d, ds, caps)] else []))"
| "rmatch f Bol = (\<lambda>st. case st of (p, s, caps) \<Rightarrow>
     (case p of
        None \<Rightarrow> [st]
      | Some c \<Rightarrow> if multiline f \<and> isLineTerminator c then [st] else []))"
| "rmatch f Eol = (\<lambda>st. case st of (p, s, caps) \<Rightarrow>
     (case s of
        [] \<Rightarrow> [st]
      | d # ds \<Rightarrow> if multiline f \<and> isLineTerminator d then [st] else []))"
| "rmatch f (Seq r1 r2) = (\<lambda>st. concat (map (rmatch f r2) (rmatch f r1 st)))"
| "rmatch f (Alt r1 r2) = (\<lambda>st. rmatch f r1 st @ rmatch f r2 st)"
| "rmatch f (Rep lo hi greedy r) = repeatMatcher (rmatch f r) lo hi greedy"
| "rmatch f (Grp n r) = (\<lambda>st. map (\<lambda>(p', s', caps').
       (p', s', (n, take (length (fst (snd st)) - length s') (fst (snd st))) # caps'))
     (rmatch f r st))"

record rxmatch =
  matchIndex :: nat
  matchText :: string
  matchGroups :: "(string \<times> string) list"
  matchPrev :: "char option"
  matchRest :: string

text \<open>The leftmost match at or after the current position.\<close>

fun rsearch :: "flags \<Rightarrow> regex \<Rightarrow> nat \<Rightarrow> char option \<Rightarrow> string \<Rightarrow> rxmatch option" where
  "rsearch f r i p s =
     (case rmatch f r (p, s, []) of
        (p', s', caps) # _ \<Rightarrow>
          Some \<lparr>matchIndex = i, matchText = take (length s - length s') s,
                matchGroups = caps, matchPrev = p', matchRest = s'\<rparr>
      | [] \<Rightarrow> (case s of [] \<Rightarrow> None | c # cs \<Rightarrow> rsearch f r (Suc i) (Some c) cs))"

declare rsearch.simps [simp del]

text \<open>\<open>r.exec(s)\<close> and \<open>s.match(r)\<close> for a pattern without the \<open>g\<close> flag, and \<open>r.test(s)\<close>.\<close>

definition regexExec :: "flags \<Rightarrow> regex \<Rightarrow> string \<Rightarrow> rxmatch option" where
  "regexExec f r s = rsearch f r 0 None s"

definition regexTest :: "flags \<Rightarrow> regex \<Rightarrow> string \<Rightarrow> bool" where
  "regexTest f r s = (regexExec f r s \<noteq> None)"

text \<open>
  The loop \<^verbatim>\<open>do { match = r.exec(s) } while (match)\<close> for a pattern with the \<open>g\<close> flag:
  every search starts where the match before ended. A match of no character would keep
  the loop of the source at the same place for ever; the two patterns used this way
  consume a character in every match (lemmas \<open>variableRegex_consumes\<close> and
  \<open>imageRegex_consumes\<close>), so the last branch is never taken.
\<close>

function execAll :: "flags \<Rightarrow> regex \<Rightarrow> char option \<Rightarrow> string \<Rightarrow> rxmatch list" where
  "execAll f r p s =
     (case rsearch f r 0 p s of
        None \<Rightarrow> []
      | Some m \<Rightarrow>
          if length (matchRest m) < length s
          then m # execAll f r (matchPrev m) (matchRest m)
          else [])"
  by pat_completeness auto
termination
  by (relation "measure (\<lambda>(f, r, p, s). length s)") auto

declare execAll.simps [simp del]

text \<open>
  Two notions for the proofs: the rest of the input in a state, and the patterns that
  cannot match without consuming a character.
\<close>

definition restOf :: "mstate \<Rightarrow> string" where
  "restOf x = fst (snd x)"

primrec consuming :: "regex \<Rightarrow> bool" where
  "consuming Eps = False"
| "consuming (Lit c) = True"
| "consuming (Str cs) = (cs \<noteq> [])"
| "consuming (Cls P) = True"
| "consuming Bol = False"
| "consuming Eol = False"
| "consuming (Seq r1 r2) = (consuming r1 \<or> consuming r2)"
| "consuming (Alt r1 r2) = (consuming r1 \<and> consuming r2)"
| "consuming (Rep lo hi greedy r) = (0 < lo \<and> hi \<noteq> Some 0 \<and> consuming r)"
| "consuming (Grp n r) = consuming r"


text \<open>\<open>match.groups.name\<close>\<close>

definition group :: "rxmatch \<Rightarrow> string \<Rightarrow> string option" where
  "group m n = map_of (matchGroups m) n"

subsection \<open>Pattern syntax\<close>

definition reStar :: "regex \<Rightarrow> regex" where
  "reStar r = Rep 0 None True r"

definition rePlus :: "regex \<Rightarrow> regex" where
  "rePlus r = Rep 1 None True r"

definition reOpt :: "regex \<Rightarrow> regex" where
  "reOpt r = Rep 0 (Some 1) True r"

definition reLazyStar :: "regex \<Rightarrow> regex" where
  "reLazyStar r = Rep 0 None False r"

definition reLazyPlus :: "regex \<Rightarrow> regex" where
  "reLazyPlus r = Rep 1 None False r"

fun seqs :: "regex list \<Rightarrow> regex" where
  "seqs [] = Eps"
| "seqs [r] = r"
| "seqs (r # rs) = Seq r (seqs rs)"

fun alts :: "regex list \<Rightarrow> regex" where
  "alts [] = Eps"
| "alts [r] = r"
| "alts (r # rs) = Alt r (alts rs)"

text \<open>The classes \<open>[ \t]\<close>, \<open>\S\<close>, \<open>.\<close>, \<open>[^\s\+]\<close>, \<open>[ =]\<close> and \<open>[1-9]\<close>.\<close>

definition blank :: "char \<Rightarrow> bool" where
  "blank c = (c = CHR 0x20 \<or> c = CHR 0x09)"

definition nonSpace :: "char \<Rightarrow> bool" where
  "nonSpace c = (\<not> isWhiteSpace c)"

definition anyChar :: "char \<Rightarrow> bool" where
  "anyChar c = (\<not> isLineTerminator c)"

definition notSpacePlus :: "char \<Rightarrow> bool" where
  "notSpacePlus c = (\<not> isWhiteSpace c \<and> c \<noteq> CHR ''+'')"

definition spaceOrEquals :: "char \<Rightarrow> bool" where
  "spaceOrEquals c = (c = CHR 0x20 \<or> c = CHR ''='')"

definition isDigit19 :: "char \<Rightarrow> bool" where
  "isDigit19 c = (c \<in> set ''123456789'')"

definition flagsNone :: flags where
  "flagsNone = \<lparr>ignoreCase = False, multiline = False\<rparr>"

definition flagsI :: flags where
  "flagsI = \<lparr>ignoreCase = True, multiline = False\<rparr>"

definition flagsM :: flags where
  "flagsM = \<lparr>ignoreCase = False, multiline = True\<rparr>"

definition flagsIM :: flags where
  "flagsIM = \<lparr>ignoreCase = True, multiline = True\<rparr>"

subsection \<open>The patterns of the source\<close>

text \<open>
  \<open>escapeChar\<close> is the pattern text \<^verbatim>\<open>\\\<close>, a backslash. The fragments
  \<^verbatim>\<open>\\[ \t]*\r?\n\<close> and \<^verbatim>\<open>#.*?\r?\n\<close> occur in three patterns.
\<close>

definition escapedNewline :: regex where
  "escapedNewline =
     seqs [Lit (CHR 0x5C), reStar (Cls blank), reOpt (Lit (CHR 0x0D)), Lit (CHR 0x0A)]"

definition commentToNewline :: regex where
  "commentToNewline =
     seqs [Lit (CHR ''#''), reLazyStar (Cls anyChar), reOpt (Lit (CHR 0x0D)), Lit (CHR 0x0A)]"

text \<open>\<^verbatim>\<open>\\[ \t]*$|^[ \t]*#\<close> with the flag \<open>m\<close>\<close>

definition lineContinuationRegex :: regex where
  "lineContinuationRegex =
     Alt (seqs [Lit (CHR 0x5C), reStar (Cls blank), Eol])
         (seqs [Bol, reStar (Cls blank), Lit (CHR ''#'')])"

text \<open>\<^verbatim>\<open>^(?<target>\S+?):(?:$|\n|\t|\s)+\<close> with the flags \<open>im\<close>\<close>

definition targetRegex :: regex where
  "targetRegex =
     seqs [Bol, Grp ''target'' (reLazyPlus (Cls nonSpace)), Lit (CHR '':''),
           rePlus (alts [Eol, Lit (CHR 0x0A), Lit (CHR 0x09), Cls isWhiteSpace])]"

text \<open>
  \<^verbatim>\<open>^[ \t]*(?:ARG|LET|SET)(?:\\[ \t]*\r?\n| |--global|\t|#.*?\r?\n)+(?<name>\w+)[ =](?<value>[^\s\+]*)\<close>
  with the flags \<open>im\<close>
\<close>

definition argRegex :: regex where
  "argRegex =
     seqs [Bol, reStar (Cls blank), alts [Str ''ARG'', Str ''LET'', Str ''SET''],
           rePlus (alts [escapedNewline, Lit (CHR 0x20), Str ''--global'', Lit (CHR 0x09),
                         commentToNewline]),
           Grp ''name'' (rePlus (Cls isWordChar)),
           Cls spaceOrEquals,
           Grp ''value'' (reStar (Cls notSpacePlus))]"

text \<open>\<^verbatim>\<open>^[ \t]*WITH DOCKER\<close> with the flags \<open>im\<close>\<close>

definition withDockerRegex :: regex where
  "withDockerRegex = seqs [Bol, reStar (Cls blank), Str ''WITH DOCKER'']"

text \<open>\<^verbatim>\<open>--pull(?:\s+|\s*=\s*)(?<image>[^\s\+]+)\<close> with the flags \<open>gim\<close>\<close>

definition imageRegex :: regex where
  "imageRegex =
     seqs [Str ''--pull'',
           Alt (rePlus (Cls isWhiteSpace))
               (seqs [reStar (Cls isWhiteSpace), Lit (CHR ''=''), reStar (Cls isWhiteSpace)]),
           Grp ''image'' (rePlus (Cls notSpacePlus))]"

text \<open>
  \<^verbatim>\<open>^[ \t]*FROM(?:\\[ \t]*\r?\n| |\t|#.*?\r?\n|--platform=\S+|--allow-privileged)+(?<image>[^\s\+]+)(?:(?:\\[ \t]*\r?\n| |\t|#.*?\r?\n|--\S+=\S+)+)?\<close>
  with the flags \<open>im\<close>
\<close>

definition fromRegex :: regex where
  "fromRegex =
     seqs [Bol, reStar (Cls blank), Str ''FROM'',
           rePlus (alts [escapedNewline, Lit (CHR 0x20), Lit (CHR 0x09), commentToNewline,
                         Seq (Str ''--platform='') (rePlus (Cls nonSpace)),
                         Str ''--allow-privileged'']),
           Grp ''image'' (rePlus (Cls notSpacePlus)),
           reOpt (rePlus (alts [escapedNewline, Lit (CHR 0x20), Lit (CHR 0x09),
                                commentToNewline,
                                seqs [Str ''--'', rePlus (Cls nonSpace), Lit (CHR ''=''),
                                      rePlus (Cls nonSpace)]]))]"

text \<open>
  \<^verbatim>\<open>(?<fullvariable>\\?\$(?<simplearg>\w+)|\\?\${(?<complexarg>\w+)(?::.+?)?}+)\<close>
  with the flags \<open>gi\<close>
\<close>

definition variableRegex :: regex where
  "variableRegex =
     Grp ''fullvariable''
       (Alt (seqs [reOpt (Lit (CHR 0x5C)), Lit (CHR ''$''),
                   Grp ''simplearg'' (rePlus (Cls isWordChar))])
            (seqs [reOpt (Lit (CHR 0x5C)), Lit (CHR ''$''), Lit (CHR ''{''),
                   Grp ''complexarg'' (rePlus (Cls isWordChar)),
                   reOpt (Seq (Lit (CHR '':'')) (reLazyPlus (Cls anyChar))),
                   rePlus (Lit (CHR ''}''))]))"

text \<open>\<^verbatim>\<open>^\${.+?:-"?(?<value>.*?)"?}$\<close> without flags\<close>

definition defaultValueRegex :: regex where
  "defaultValueRegex =
     seqs [Bol, Lit (CHR ''$''), Lit (CHR ''{''), reLazyPlus (Cls anyChar),
           Lit (CHR '':''), Lit (CHR ''-''), reOpt (Lit (CHR 0x22)),
           Grp ''value'' (reLazyStar (Cls anyChar)),
           reOpt (Lit (CHR 0x22)), Lit (CHR ''}''), Eol]"

text \<open>\<^verbatim>\<open>^quay\.io(?::[1-9][0-9]{0,4})?\<close> with the flag \<open>i\<close>\<close>

definition quayRegex :: regex where
  "quayRegex =
     seqs [Bol, Str ''quay.io'',
           reOpt (seqs [Lit (CHR '':''), Cls isDigit19, Rep 0 (Some 4) True (Cls isDigit)])]"

text \<open>
  \<^verbatim>\<open>(?<prefix>${escapedName})/(?<depName>.+)\<close> without flags. \<open>escapeRegExp\<close>
  (of \<^verbatim>\<open>lib/util/regex\<close>) quotes the characters that a pattern reads as syntax, so that the
  escaped name matches the name itself, character by character.
\<close>

definition aliasRegex :: "string \<Rightarrow> regex" where
  "aliasRegex name =
     seqs [Grp ''prefix'' (Str name), Lit (CHR ''/''), Grp ''depName'' (rePlus (Cls anyChar))]"

section \<open>Dependency descriptors\<close>

text \<open>
  \<open>PackageDependency\<close> with the fields that the manager sets. An absent field
  (\<open>undefined\<close>) is \<open>None\<close>.
\<close>

record PackageDependency =
  depName :: "string option"
  packageName :: "string option"
  currentValue :: "string option"
  currentDigest :: "string option"
  datasource :: "string option"
  versioning :: "string option"
  depType :: "string option"
  skipReason :: "string option"
  replaceString :: "string option"
  autoReplaceStringTemplate :: "string option"

definition emptyDep :: PackageDependency where
  "emptyDep = \<lparr>depName = None, packageName = None, currentValue = None,
     currentDigest = None, datasource = None, versioning = None, depType = None,
     skipReason = None, replaceString = None, autoReplaceStringTemplate = None\<rparr>"

datatype PackageFileContent = PackageFileContent "PackageDependency list"

datatype error = TypeError

text \<open>
  Modelled from the spec: the identifiers \<open>DockerDatasource.id\<close>, \<open>ubuntuVersioning.id\<close>
  and \<open>debianVersioning.id\<close>, whose modules are not part of the sources. The predicate
  \<open>debianVersioning.api.isVersion\<close> is a parameter (\<open>isVersion\<close>) of the functions below.
\<close>

definition DockerDatasource_id :: string where
  "DockerDatasource_id = ''docker''"

definition ubuntuVersioning_id :: string where
  "ubuntuVersioning_id = ''ubuntu''"

definition debianVersioning_id :: string where
  "debianVersioning_id = ''debian''"

section \<open>extractVariables\<close>

text \<open>
  A \<open>Record<string, string>\<close> that is enumerated with \<open>Object.entries\<close> is an association
  list in the order in which the keys were first set. (A key that starts with \<open>$\<close> or a
  backslash is not an array index, so the order of insertion is the order of
  enumeration.)
\<close>

fun recordSet :: "(string \<times> string) list \<Rightarrow> string \<Rightarrow> string \<Rightarrow> (string \<times> string) list" where
  "recordSet [] k v = [(k, v)]"
| "recordSet ((k', v') # kvs) k v =
     (if k' = k then (k, v) # kvs else (k', v') # recordSet kvs k v)"

text \<open>
  The name of a match is \<^verbatim>\<open>match.groups?.simplearg || match.groups?.complexarg\<close>. One of the
  two groups takes part in every match of \<open>variableRegex\<close>; were both absent, the value
  stored would be \<open>undefined\<close>, which the lookup \<open>args[argName]\<close> reads as the key
  \<^verbatim>\<open>undefined\<close>.
\<close>

definition variableName :: "rxmatch \<Rightarrow> string" where
  "variableName m =
     (if truthy (group m ''simplearg'') then orEmpty (group m ''simplearg'')
      else (case group m ''complexarg'' of Some n \<Rightarrow> n | None \<Rightarrow> ''undefined''))"

definition addVariable :: "(string \<times> string) list \<Rightarrow> rxmatch \<Rightarrow> (string \<times> string) list" where
  "addVariable variables m =
     (case group m ''fullvariable'' of
        None \<Rightarrow> variables
      | Some fullvariable \<Rightarrow>
          if fullvariable \<noteq> [] then recordSet variables fullvariable (variableName m)
          else variables)"

definition extractVariables :: "string \<Rightarrow> (string \<times> string) list" where
  "extractVariables img = foldl addVariable [] (execAll flagsI variableRegex None img)"

section \<open>getAutoReplaceTemplate\<close>

definition getAutoReplaceTemplate :: "PackageDependency \<Rightarrow> string option" where
  "getAutoReplaceTemplate dep =
     (let template0 = replaceString dep;
          template1 =
            (if truthy (currentValue dep) then
               (let placeholder = ''{{#if newValue}}{{newValue}}{{/if}}'' @
                      (if \<not> truthy (currentDigest dep)
                       then ''{{#if newDigest}}'' @ CHR 0x40 # ''{{newDigest}}{{/if}}'' else [])
                in map_option
                     (\<lambda>t. replaceStr t (orEmpty (currentValue dep)) placeholder)
                     template0)
             else template0);
          template2 =
            (if truthy (currentDigest dep) then
               map_option
                 (\<lambda>t. replaceStr t (orEmpty (currentDigest dep))
                        ''{{#if newDigest}}{{newDigest}}{{/if}}'')
                 template1
             else template1)
      in template2)"

section \<open>processDepForAutoReplace\<close>

text \<open>
  \<^verbatim>\<open>is.string(v) && lines[lineNumber].includes(v)\<close>: when \<open>v\<close> is a string the line is read,
  and calling \<open>includes\<close> on a line that does not exist throws a \<open>TypeError\<close>.
\<close>

definition lineIncludes :: "string list \<Rightarrow> nat \<Rightarrow> string option \<Rightarrow> error + bool" where
  "lineIncludes lines lineNumber v =
     (case v of
        None \<Rightarrow> Inr False
      | Some t \<Rightarrow>
          if lineNumber < length lines then Inr (strIncludes (lines ! lineNumber) t)
          else Inl TypeError)"

definition lineHasValueOrDigest ::
  "PackageDependency \<Rightarrow> string list \<Rightarrow> nat \<Rightarrow> error + bool" where
  "lineHasValueOrDigest dep lines lineNumber =
     (case lineIncludes lines lineNumber (currentValue dep) of
        Inl e \<Rightarrow> Inl e
      | Inr True \<Rightarrow> Inr True
      | Inr False \<Rightarrow> lineIncludes lines lineNumber (currentDigest dep))"

text \<open>
  The two nested loops. A range is an array of two line numbers, and the inner loop
  visits both; an element of \<open>lineNumberRanges\<close> that is \<open>undefined\<close> (\<open>None\<close>) is not
  iterable.
\<close>

fun rangesToReplace ::
  "PackageDependency \<Rightarrow> string list \<Rightarrow> (nat \<times> nat) option list \<Rightarrow>
   (nat \<times> nat) list \<Rightarrow> error + (nat \<times> nat) list" where
  "rangesToReplace dep lines [] acc = Inr acc"
| "rangesToReplace dep lines (None # rs) acc = Inl TypeError"
| "rangesToReplace dep lines (Some (a, b) # rs) acc =
     (case lineHasValueOrDigest dep lines a of
        Inl e \<Rightarrow> Inl e
      | Inr ha \<Rightarrow>
          (let acc1 = (if ha then acc @ [(a, b)] else acc) in
           case lineHasValueOrDigest dep lines b of
             Inl e \<Rightarrow> Inl e
           | Inr hb \<Rightarrow>
               rangesToReplace dep lines rs (if hb then acc1 @ [(a, b)] else acc1)))"

text \<open>\<open>lines[lineNumber]\<close> inside \<open>join\<close>, where an absent element is the empty text.\<close>

definition lineOrEmpty :: "string list \<Rightarrow> nat \<Rightarrow> string" where
  "lineOrEmpty lines lineNumber = (if lineNumber < length lines then lines ! lineNumber else [])"

text \<open>
  The second half of the function: the lines from the first line of the first range to
  the last line of the last range, joined, take the place of the replace string, and the
  template is computed from it.
\<close>

definition unfoldReplaceString ::
  "PackageDependency \<Rightarrow> (nat \<times> nat) list \<Rightarrow> string list \<Rightarrow> string \<Rightarrow> PackageDependency" where
  "unfoldReplaceString dep lineNumberRangesToReplace lines linefeed =
     (let minLine = fst (hd lineNumberRangesToReplace);
          maxLine = snd (last lineNumberRangesToReplace);
          unfoldedLineNumbers = [minLine ..< Suc maxLine];
          text0 = joinWith linefeed (map (lineOrEmpty lines) unfoldedLineNumbers);
          text1 = (if \<not> truthy (currentDigest dep) then text0 @ linefeed else text0);
          dep1 = dep\<lparr>replaceString := Some text1\<rparr>
      in dep1\<lparr>autoReplaceStringTemplate := getAutoReplaceTemplate dep1\<rparr>)"

text \<open>
  The ranges pushed are sorted by their first line; the sort of an array is stable. The
  function returns early when there is one range only or when nothing was pushed.
\<close>

definition processDepForAutoReplace ::
  "PackageDependency \<Rightarrow> (nat \<times> nat) option list \<Rightarrow> string list \<Rightarrow> string \<Rightarrow>
   error + PackageDependency" where
  "processDepForAutoReplace dep lineNumberRanges lines linefeed =
     (case rangesToReplace dep lines lineNumberRanges [] of
        Inl e \<Rightarrow> Inl e
      | Inr pushed \<Rightarrow>
          if length lineNumberRanges = 1 \<or> sort_key fst pushed = [] then Inr dep
          else Inr (unfoldReplaceString dep (sort_key fst pushed) lines linefeed))"

section \<open>splitImageParts\<close>

text \<open>
  The value of the default form \<^verbatim>\<open>${VARIABLE:-<image>:<defaultVal>@<digest>}\<close>, when the
  pattern matches and the value is not empty.
\<close>

definition defaultValue :: "string \<Rightarrow> string option" where
  "defaultValue s =
     (case regexExec flagsNone defaultValueRegex s of
        None \<Rightarrow> None
      | Some m \<Rightarrow> (if truthy (group m ''value'') then group m ''value'' else None))"

definition splitImageParts :: "string \<Rightarrow> PackageDependency" where
  "splitImageParts currentFrom =
     (let isVariable = (strIncludes currentFrom variableMarker \<and> defaultValue currentFrom \<noteq> None);
          cleanedCurrentFrom = (if isVariable then orEmpty (defaultValue currentFrom)
                                else currentFrom)
      in if strIncludes currentFrom variableMarker \<and> strIncludes cleanedCurrentFrom variableMarker
         then emptyDep\<lparr>skipReason := Some ''contains-variable''\<rparr>
         else
           (let parts = splitOn (CHR ''@'') cleanedCurrentFrom;
                currentDepTag = (case parts of [] \<Rightarrow> [] | t # _ \<Rightarrow> t);
                currentDigest0 = (case parts of _ # d # _ \<Rightarrow> Some d | _ \<Rightarrow> None);
                depTagSplit = splitOn (CHR '':'') currentDepTag;
                dep =
                  (if length depTagSplit = 1 \<or> strIncludes (last depTagSplit) ''/''
                   then emptyDep\<lparr>depName := Some currentDepTag, currentDigest := currentDigest0\<rparr>
                   else emptyDep\<lparr>depName := Some (joinWith '':'' (butlast depTagSplit)),
                                  currentValue := Some (last depTagSplit),
                                  currentDigest := currentDigest0\<rparr>)
            in if isVariable then
                 dep\<lparr>replaceString := Some cleanedCurrentFrom,
                     currentValue := (if truthy (currentValue dep) then currentValue dep else None),
                     currentDigest := (if truthy (currentDigest dep) then currentDigest dep else None)\<rparr>
               else dep))"

section \<open>getDep\<close>

text \<open>\<open>is.emptyStringOrWhitespace\<close>: no character of the text is not white space.\<close>

definition emptyStringOrWhitespace :: "string \<Rightarrow> bool" where
  "emptyStringOrWhitespace s = list_all isWhiteSpace s"

text \<open>
  The two templates that \<open>getDep\<close> assigns; \<open>CHR 0x40\<close> is the at sign before the digest.
\<close>

definition depNameTemplate :: string where
  "depNameTemplate =
     ''{{depName}}{{#if newValue}}:{{newValue}}{{/if}}{{#if newDigest}}''
       @ CHR 0x40 # ''{{newDigest}}{{/if}}''"

definition packageNameTemplate :: string where
  "packageNameTemplate =
     ''{{packageName}}{{#if newValue}}:{{newValue}}{{/if}}{{#if newDigest}}''
       @ CHR 0x40 # ''{{newDigest}}{{/if}}''"

definition specialPrefixes :: "string list" where
  "specialPrefixes = [''amd64'', ''arm64'', ''library'']"

text \<open>The body of the loop over \<open>specialPrefixes\<close>.\<close>

definition prettyPrefix :: "bool \<Rightarrow> PackageDependency \<Rightarrow> string \<Rightarrow> PackageDependency" where
  "prettyPrefix specifyReplaceString dep prefix =
     (let name = orEmpty (depName dep) in
      if startsWith name (prefix @ ''/'') then
        (let dep1 = dep\<lparr>packageName := Some name,
                        depName := Some (replaceStr name (prefix @ ''/'') [])\<rparr>
         in if specifyReplaceString
            then dep1\<lparr>autoReplaceStringTemplate := Some packageNameTemplate\<rparr>
            else dep1)
      else dep)"

text \<open>
  The blocks of \<open>getDep\<close> after \<open>splitImageParts\<close>, in the order of the source: the replace
  string and the template, the special prefixes, the versioning, and the port of
  \<^verbatim>\<open>quay.io\<close>.
\<close>

definition specifyReplace :: "string \<Rightarrow> bool \<Rightarrow> PackageDependency \<Rightarrow> PackageDependency" where
  "specifyReplace currentFrom specifyReplaceString dep =
     (if specifyReplaceString then
        (if \<not> truthy (replaceString dep)
         then dep\<lparr>replaceString := Some currentFrom\<rparr> else dep)
        \<lparr>autoReplaceStringTemplate := Some depNameTemplate\<rparr>
      else dep)"

definition prettyPrefixes :: "bool \<Rightarrow> PackageDependency \<Rightarrow> PackageDependency" where
  "prettyPrefixes specifyReplaceString dep =
     (if truthy (depName dep)
      then foldl (prettyPrefix specifyReplaceString) dep specialPrefixes
      else dep)"

definition setVersioning ::
  "(string option \<Rightarrow> bool) \<Rightarrow> PackageDependency \<Rightarrow> PackageDependency" where
  "setVersioning isVersion dep =
     (let dep1 =
            (if depName dep = Some ''ubuntu''
             then dep\<lparr>versioning := Some ubuntuVersioning_id\<rparr> else dep)
      in if depName dep1 = Some ''debian'' \<and> isVersion (currentValue dep1)
         then dep1\<lparr>versioning := Some debianVersioning_id\<rparr> else dep1)"

text \<open>
  \<open>dep.depName.replace(quayRegex, 'quay.io')\<close>: the text of the first match is replaced;
  the replacement has no \<open>$\<close>.
\<close>

definition replaceQuay :: "string \<Rightarrow> string" where
  "replaceQuay name =
     (case regexExec flagsI quayRegex name of
        None \<Rightarrow> name
      | Some m \<Rightarrow> take (matchIndex m) name @ ''quay.io'' @ matchRest m)"

definition hideQuayPort :: "PackageDependency \<Rightarrow> PackageDependency" where
  "hideQuayPort dep =
     (if truthy (depName dep) \<and> regexTest flagsI quayRegex (orEmpty (depName dep)) then
        (let name = replaceQuay (orEmpty (depName dep)) in
         if name \<noteq> orEmpty (depName dep)
         then dep\<lparr>packageName := depName dep, depName := Some name,
                  autoReplaceStringTemplate := Some packageNameTemplate\<rparr>
         else dep)
      else dep)"

text \<open>
  The first alias, in the order of \<open>Object.entries(registryAliases)\<close>, whose pattern is
  found in \<open>currentFrom\<close>, as the alias value and the group \<open>depName\<close>.
\<close>

fun findAlias :: "(string \<times> string) list \<Rightarrow> string \<Rightarrow> (string \<times> string) option" where
  "findAlias [] currentFrom = None"
| "findAlias ((name, v) # aliases) currentFrom =
     (case regexExec flagsNone (aliasRegex name) currentFrom of
        Some m \<Rightarrow> Some (v, orEmpty (group m ''depName''))
      | None \<Rightarrow> findAlias aliases currentFrom)"

text \<open>
  \<open>getDep(currentFrom, specifyReplaceString, registryAliases)\<close>. The registry aliases are
  the entries of the object, and an absent object has no entry. The call for an alias
  passes no aliases, so that it does not recur again.
\<close>

function getDep ::
  "(string option \<Rightarrow> bool) \<Rightarrow> string option \<Rightarrow> bool \<Rightarrow> (string \<times> string) list \<Rightarrow>
   PackageDependency" where
  "getDep isVersion currentFrom specifyReplaceString registryAliases =
     (case currentFrom of
        None \<Rightarrow> emptyDep\<lparr>skipReason := Some ''invalid-value''\<rparr>
      | Some cf \<Rightarrow>
          if emptyStringOrWhitespace cf then emptyDep\<lparr>skipReason := Some ''invalid-value''\<rparr>
          else
            (case findAlias registryAliases cf of
               Some (v, name) \<Rightarrow>
                 (let dep = (getDep isVersion (Some (v @ ''/'' @ name)) True [])
                              \<lparr>replaceString := Some cf\<rparr>
                  in dep\<lparr>autoReplaceStringTemplate := getAutoReplaceTemplate dep\<rparr>)
             | None \<Rightarrow>
                 hideQuayPort
                   (setVersioning isVersion
                     (prettyPrefixes specifyReplaceString
                       ((specifyReplace cf specifyReplaceString (splitImageParts cf))
                          \<lparr>datasource := Some DockerDatasource_id\<rparr>)))))"
  by pat_completeness auto
termination
  by (relation "measure (\<lambda>(isVersion, currentFrom, specifyReplaceString, registryAliases).
        length registryAliases)")
    (auto split: list.splits)

declare getDep.simps [simp del]

section \<open>extractPackageFile\<close>

text \<open>
  The variables of the function that live across the lines of the file. \<open>args\<close> and
  \<open>argsLines\<close> are plain objects \<^verbatim>\<open>{}\<close> used as dictionaries: the maps hold their own
  properties, and both objects inherit from \<open>Object.prototype\<close>. The assignment
  \<^verbatim>\<open>argsLines['__proto__'] = [a, b]\<close> runs the setter of \<open>Object.prototype\<close>, which makes the
  array the prototype of \<open>argsLines\<close>; \<open>argsLinesProto\<close> holds that array, and is \<open>None\<close> as
  long as the prototype is \<open>Object.prototype\<close> itself.
\<close>

record ExtractState =
  deps :: "PackageDependency list"
  args :: "string \<rightharpoonup> string"
  argsLines :: "string \<rightharpoonup> nat \<times> nat"
  argsLinesProto :: "(nat \<times> nat) option"
  currentTarget :: string

definition initialState :: ExtractState where
  "initialState = \<lparr>deps = [], args = Map.empty, argsLines = Map.empty, argsLinesProto = None,
     currentTarget = ''base''\<rparr>"

text \<open>
  The names of the properties of \<open>Object.prototype\<close>, which every plain object inherits:
  eleven functions, and the accessor \<^verbatim>\<open>__proto__\<close>, whose getter returns the prototype of
  the object.
\<close>

definition objectPrototypeKeys :: "string list" where
  "objectPrototypeKeys =
     [''constructor'', ''__defineGetter__'', ''__defineSetter__'', ''hasOwnProperty'',
      ''__lookupGetter__'', ''__lookupSetter__'', ''isPrototypeOf'', ''propertyIsEnumerable'',
      ''toString'', ''valueOf'', ''__proto__'', ''toLocaleString'']"

text \<open>
  \<open>args[argName]\<close>: the own property when there is one, a text; else the inherited
  property, a function or, for \<^verbatim>\<open>__proto__\<close>, the object \<open>Object.prototype\<close>; else
  \<open>undefined\<close>. The prototype of \<open>args\<close> never changes, since the setter of \<^verbatim>\<open>__proto__\<close>
  ignores a text.
\<close>

datatype argValue = ArgUndefined | ArgString string | ArgInherited

definition argsGet :: "ExtractState \<Rightarrow> string \<Rightarrow> argValue" where
  "argsGet st argName =
     (case args st argName of
        Some v \<Rightarrow> ArgString v
      | None \<Rightarrow> if argName \<in> set objectPrototypeKeys then ArgInherited else ArgUndefined)"

text \<open>
  \<open>argsLines[argName]\<close>, as the loops of \<open>processDepForAutoReplace\<close> see it: a range of two
  line numbers, or a value that \<^verbatim>\<open>for ... of\<close> cannot iterate (\<open>None\<close>), which is the case of
  \<open>undefined\<close>, of a function, of a number and of \<open>Object.prototype\<close>. A name that is not an
  own property is looked up in the prototype: \<^verbatim>\<open>__proto__\<close> reads the prototype itself, which
  is a range once a declaration has set it; the other names that an array or
  \<open>Object.prototype\<close> hold are functions or numbers.
\<close>

definition argsLinesGet :: "ExtractState \<Rightarrow> string \<Rightarrow> (nat \<times> nat) option" where
  "argsLinesGet st argName =
     (case argsLines st argName of
        Some r \<Rightarrow> Some r
      | None \<Rightarrow> if argName = ''__proto__'' then argsLinesProto st else None)"

text \<open>The condition of the loop that reads the continuation lines of an instruction.\<close>

definition continues :: "string \<Rightarrow> string \<Rightarrow> bool" where
  "continues instruction lineLookahead =
     (\<not> startsWith (trimStart instruction) ''#''
      \<and> \<not> regexTest flagsIM targetRegex lineLookahead
      \<and> regexTest flagsM lineContinuationRegex lineLookahead)"

text \<open>
  The loop itself: \<open>following\<close> holds the lines after \<open>lineNumber\<close>. Past the last line,
  \<^verbatim>\<open>lines[++lineNumber] || ''\<close> is the empty text, which is appended after a line feed, and
  the line number is incremented all the same; the loop then stops, since the empty text
  does not match \<open>lineContinuationRegex\<close> (lemma \<open>continues_empty\<close>).
\<close>

fun readInstruction :: "string \<Rightarrow> string \<Rightarrow> string list \<Rightarrow> nat \<Rightarrow> string \<times> nat" where
  "readInstruction instruction lineLookahead [] lineNumber =
     (if continues instruction lineLookahead
      then (instruction @ [CHR 0x0A], Suc lineNumber)
      else (instruction, lineNumber))"
| "readInstruction instruction lineLookahead (l # following) lineNumber =
     (if continues instruction lineLookahead
      then readInstruction (instruction @ CHR 0x0A # l) l following (Suc lineNumber)
      else (instruction, lineNumber))"

text \<open>
  A declaration \<open>ARG\<close>, \<open>LET\<close> or \<open>SET\<close>. Both assignments create an own property, except
  for the name \<^verbatim>\<open>__proto__\<close>: there the setter of \<open>Object.prototype\<close> runs, which ignores the
  text assigned to \<open>args\<close> and makes the array assigned to \<open>argsLines\<close> its prototype.
\<close>

definition stripQuotes :: "string \<Rightarrow> string" where
  "stripQuotes argMatchValue =
     (if argMatchValue \<noteq> [] \<and> hd argMatchValue = CHR 0x22 \<and> last argMatchValue = CHR 0x22
      then butlast (tl argMatchValue)
      else argMatchValue)"

definition declareArg :: "string \<Rightarrow> nat \<Rightarrow> nat \<Rightarrow> ExtractState \<Rightarrow> ExtractState" where
  "declareArg instruction lineNumberInstrStart lineNumber st =
     (case regexExec flagsIM argRegex instruction of
        None \<Rightarrow> st
      | Some argMatch \<Rightarrow>
          if truthy (group argMatch ''name'') then
            (let name = orEmpty (group argMatch ''name'');
                 argMatchValue = stripQuotes (orEmpty (group argMatch ''value''))
             in if name = ''__proto__''
                then st\<lparr>argsLinesProto := Some (lineNumberInstrStart, lineNumber)\<rparr>
                else st\<lparr>argsLines := (argsLines st)(name \<mapsto> (lineNumberInstrStart, lineNumber)),
                        args := (args st)(name \<mapsto> argMatchValue)\<rparr>)
          else st)"

definition setTarget :: "string \<Rightarrow> ExtractState \<Rightarrow> ExtractState" where
  "setTarget instruction st =
     (case regexExec flagsIM targetRegex instruction of
        None \<Rightarrow> st
      | Some targetMatch \<Rightarrow>
          if truthy (group targetMatch ''target'')
          then st\<lparr>currentTarget := orEmpty (group targetMatch ''target'')\<rparr>
          else st)"

text \<open>The candidate image references of an instruction.\<close>

definition pullImages :: "string \<Rightarrow> string list" where
  "pullImages instruction =
     concat (map (\<lambda>m. if truthy (group m ''image'') then [orEmpty (group m ''image'')] else [])
                 (execAll flagsIM imageRegex None instruction))"

definition fromImages :: "string \<Rightarrow> string list" where
  "fromImages instruction =
     (case regexExec flagsIM fromRegex instruction of
        None \<Rightarrow> []
      | Some fromMatch \<Rightarrow>
          if truthy (group fromMatch ''image'') then [orEmpty (group fromMatch ''image'')]
          else [])"

definition instructionImages :: "string \<Rightarrow> string list" where
  "instructionImages instruction =
     (if regexTest flagsIM withDockerRegex instruction then pullImages instruction else [])
     @ fromImages instruction"

text \<open>
  \<open>image.replace(fullVariable, resolvedArgValue)\<close> when \<open>resolvedArgValue\<close> is an inherited
  property. A function is called, without \<open>this\<close>, on the text found, and what it returns
  is converted to a text that takes the place of the text found: \<open>Object\<close>
  (\<^verbatim>\<open>constructor\<close>) wraps its argument, so that the text found is put back;
  \<^verbatim>\<open>toString\<close> returns \<^verbatim>\<open>[object Undefined]\<close>; \<^verbatim>\<open>isPrototypeOf\<close> returns \<open>false\<close>; the other
  functions convert \<open>this\<close> to an object and throw a \<open>TypeError\<close>. The value of \<^verbatim>\<open>__proto__\<close> is
  not a function: it is converted to the text \<^verbatim>\<open>[object Object]\<close>.
\<close>

definition inheritedReplacement :: "string \<Rightarrow> string \<Rightarrow> error + string" where
  "inheritedReplacement argName fullVariable =
     (if argName = ''constructor'' then Inr fullVariable
      else if argName = ''toString'' then Inr ''[object Undefined]''
      else if argName = ''isPrototypeOf'' then Inr ''false''
      else if argName = ''__proto__'' then Inr ''[object Object]''
      else Inl TypeError)"

text \<open>
  The resolution of the variables of a candidate: one step for each entry of
  \<open>extractVariables\<close>. The test \<open>resolvedArgValue || resolvedArgValue === ''\<close> holds of every
  text and of every inherited property. A function is not called when \<open>fullVariable\<close> is
  not found in the image.
\<close>

definition resolveVariable ::
  "ExtractState \<Rightarrow> string \<times> (nat \<times> nat) option list \<Rightarrow> string \<times> string \<Rightarrow>
   error + string \<times> (nat \<times> nat) option list" where
  "resolveVariable st acc entry =
     (case acc of (img, lineNumberRanges) \<Rightarrow>
      case entry of (fullVariable, argName) \<Rightarrow>
        (case argsGet st argName of
           ArgUndefined \<Rightarrow> Inr (img, lineNumberRanges)
         | ArgString resolvedArgValue \<Rightarrow>
             Inr (replaceStr img fullVariable resolvedArgValue,
                  lineNumberRanges @ [argsLinesGet st argName])
         | ArgInherited \<Rightarrow>
             (case findSub fullVariable img of
                None \<Rightarrow> Inr (img, lineNumberRanges @ [argsLinesGet st argName])
              | Some (before, after) \<Rightarrow>
                  (case inheritedReplacement argName fullVariable of
                     Inl e \<Rightarrow> Inl e
                   | Inr replacement \<Rightarrow>
                       Inr (before @ replacement @ after,
                            lineNumberRanges @ [argsLinesGet st argName])))))"

fun resolveEntries ::
  "ExtractState \<Rightarrow> string \<times> (nat \<times> nat) option list \<Rightarrow> (string \<times> string) list \<Rightarrow>
   error + string \<times> (nat \<times> nat) option list" where
  "resolveEntries st acc [] = Inr acc"
| "resolveEntries st acc (entry # entries) =
     (case resolveVariable st acc entry of
        Inl e \<Rightarrow> Inl e
      | Inr acc' \<Rightarrow> resolveEntries st acc' entries)"

definition resolveVariables ::
  "ExtractState \<Rightarrow> string \<Rightarrow> (nat \<times> nat) option list \<Rightarrow>
   error + string \<times> (nat \<times> nat) option list" where
  "resolveVariables st img lineNumberRanges =
     (if strIncludes img variableMarker
      then resolveEntries st (img, lineNumberRanges) (extractVariables img)
      else Inr (img, lineNumberRanges))"

text \<open>
  The body of the loop over \<open>images\<close>: the descriptor pushed for one candidate, if any.
\<close>

definition processImage ::
  "(string option \<Rightarrow> bool) \<Rightarrow> (string \<times> string) list \<Rightarrow> string list \<Rightarrow> string \<Rightarrow>
   nat \<times> nat \<Rightarrow> ExtractState \<Rightarrow> string \<Rightarrow> error + PackageDependency option" where
  "processImage isVersion registryAliases lines lineFeed instrRange st candidate =
     (case resolveVariables st candidate [Some instrRange] of
        Inl e \<Rightarrow> Inl e
      | Inr (img, lineNumberRanges) \<Rightarrow>
          if img = ''scratch'' then Inr None
          else
            (case processDepForAutoReplace (getDep isVersion (Some img) True registryAliases)
                    lineNumberRanges lines lineFeed of
               Inl e \<Rightarrow> Inl e
             | Inr dep \<Rightarrow>
                 Inr (Some (if \<not> truthy (depType dep)
                            then dep\<lparr>depType := Some (currentTarget st)\<rparr> else dep))))"

fun processImages ::
  "(string option \<Rightarrow> bool) \<Rightarrow> (string \<times> string) list \<Rightarrow> string list \<Rightarrow> string \<Rightarrow>
   nat \<times> nat \<Rightarrow> ExtractState \<Rightarrow> string list \<Rightarrow> error + ExtractState" where
  "processImages isVersion registryAliases lines lineFeed instrRange st [] = Inr st"
| "processImages isVersion registryAliases lines lineFeed instrRange st (candidate # images) =
     (case processImage isVersion registryAliases lines lineFeed instrRange st candidate of
        Inl e \<Rightarrow> Inl e
      | Inr None \<Rightarrow>
          processImages isVersion registryAliases lines lineFeed instrRange st images
      | Inr (Some dep) \<Rightarrow>
          processImages isVersion registryAliases lines lineFeed instrRange
            (st\<lparr>deps := deps st @ [dep]\<rparr>) images)"

text \<open>One turn of the loop over the lines, once the instruction has been read.\<close>

definition processInstruction ::
  "(string option \<Rightarrow> bool) \<Rightarrow> (string \<times> string) list \<Rightarrow> string list \<Rightarrow> string \<Rightarrow>
   nat \<Rightarrow> nat \<Rightarrow> string \<Rightarrow> ExtractState \<Rightarrow> error + ExtractState" where
  "processInstruction isVersion registryAliases lines lineFeed lineNumberInstrStart lineNumber
       instruction st =
     processImages isVersion registryAliases lines lineFeed (lineNumberInstrStart, lineNumber)
       (declareArg instruction lineNumberInstrStart lineNumber (setTarget instruction st))
       (instructionImages instruction)"

function extractLoop ::
  "(string option \<Rightarrow> bool) \<Rightarrow> (string \<times> string) list \<Rightarrow> string list \<Rightarrow> string \<Rightarrow>
   nat \<Rightarrow> ExtractState \<Rightarrow> error + ExtractState" where
  "extractLoop isVersion registryAliases lines lineFeed lineNumber st =
     (if lineNumber < length lines then
        (case readInstruction (lines ! lineNumber) (lines ! lineNumber)
                (drop (Suc lineNumber) lines) lineNumber of
           (instruction, lineNumberEnd) \<Rightarrow>
             (case processInstruction isVersion registryAliases lines lineFeed lineNumber
                     lineNumberEnd instruction st of
                Inl e \<Rightarrow> Inl e
              | Inr st' \<Rightarrow>
                  extractLoop isVersion registryAliases lines lineFeed (Suc lineNumberEnd) st'))
      else Inr st)"
  by pat_completeness auto
termination
proof (relation "measure (\<lambda>(isVersion, registryAliases, lines, lineFeed, lineNumber, st).
        length lines - lineNumber)", goal_cases)
  case 1
  show ?case by simp
next
  case (2 isVersion registryAliases lines lineFeed lineNumber st instruction lineNumberEnd st')
  have mono: "n \<le> snd (readInstruction i l following n)" for i l following n
    by (induction i l following n rule: readInstruction.induct) (auto intro: Suc_leD)
  from mono [of lineNumber "lines ! lineNumber" "lines ! lineNumber" "drop (Suc lineNumber) lines"]
    "2"(2)
  have "lineNumber \<le> lineNumberEnd"
    by (metis snd_conv)
  with "2"(1) show ?case
    by simp
qed

declare extractLoop.simps [simp del]

text \<open>
  \<open>extractPackageFile(content, _packageFile, config)\<close>, where \<open>registryAliases\<close> stands for
  \<open>config.registryAliases\<close>. The result is \<open>Inl\<close> for an exception that leaves the
  function, \<open>Inr None\<close> for \<open>null\<close>.
\<close>

definition lineFeedOf :: "string \<Rightarrow> string" where
  "lineFeedOf content =
     (if strIncludes content [CHR 0x0D, CHR 0x0A] then [CHR 0x0D, CHR 0x0A] else [CHR 0x0A])"

definition extractDeps ::
  "(string option \<Rightarrow> bool) \<Rightarrow> string \<Rightarrow> (string \<times> string) list \<Rightarrow>
   error + PackageDependency list" where
  "extractDeps isVersion content registryAliases =
     (case extractLoop isVersion registryAliases (splitLines content) (lineFeedOf content) 0
             initialState of
        Inl e \<Rightarrow> Inl e
      | Inr st \<Rightarrow> Inr (deps st))"

definition extractPackageFile ::
  "(string option \<Rightarrow> bool) \<Rightarrow> string \<Rightarrow> string \<Rightarrow> (string \<times> string) list \<Rightarrow>
   error + PackageFileContent option" where
  "extractPackageFile isVersion content packageFile registryAliases =
     (case extractDeps isVersion content registryAliases of
        Inl e \<Rightarrow> Inl e
      | Inr ds \<Rightarrow> if length ds = 0 then Inr None else Inr (Some (PackageFileContent ds)))"

text \<open>
  For the concrete files below, in which no image is named \<^verbatim>\<open>debian\<close>: a version
  predicate that holds of no value.
\<close>

definition noVersion :: "string option \<Rightarrow> bool" where
  "noVersion v = False"

section \<open>Rendering a template\<close>







section \<open>Properties\<close>

subsection \<open>Strings\<close>


lemma strIncludes_single: "strIncludes s [c] \<longleftrightarrow> c \<in> set s"
  by (induction s) (auto simp: strIncludes_def)



lemma splitOn_nonempty: "splitOn c s \<noteq> []"
  by (induction s) (auto split: list.splits)

lemma splitOn_notin: "c \<notin> set a \<Longrightarrow> splitOn c a = [a]"
  by (induction a) auto

lemma splitOn_append: "c \<notin> set a \<Longrightarrow> splitOn c (a @ c # b) = a # splitOn c b"
  by (induction a) auto

lemma splitOn_snoc: "c \<notin> set t \<Longrightarrow> splitOn c (n @ c # t) = splitOn c n @ [t]"
proof (induction n)
  case Nil
  then show ?case by (simp add: splitOn_notin)
next
  case (Cons d n)
  then show ?case
    using splitOn_nonempty [of c n] by (auto split: list.splits)
qed

lemma joinWith_splitOn: "joinWith [c] (splitOn c s) = s"
proof (induction s)
  case Nil
  then show ?case by simp
next
  case (Cons d s)
  show ?case
  proof (cases "d = c")
    case True
    then show ?thesis
      using Cons splitOn_nonempty [of c s] by (cases "splitOn c s") auto
  next
    case False
    then show ?thesis
      using Cons splitOn_nonempty [of c s]
      by (cases "splitOn c s"; cases "tl (splitOn c s)") auto
  qed
qed



subsection \<open>Length of the descriptor list and the result\<close>

text \<open>
  C2. For every content and alias map, \<open>extractPackageFile\<close> returns \<open>null\<close>, and not an
  empty list, when the run produced no descriptor, and returns the list of the
  descriptors when it produced at least one; it throws exactly when the run threw.
\<close>

theorem extractPackageFile_null_iff_no_deps:
  "(extractDeps isVersion content registryAliases = Inr []
      \<longleftrightarrow> extractPackageFile isVersion content packageFile registryAliases = Inr None)
   \<and> (\<forall>ds. (extractDeps isVersion content registryAliases = Inr ds \<and> ds \<noteq> [])
      \<longleftrightarrow> extractPackageFile isVersion content packageFile registryAliases
            = Inr (Some (PackageFileContent ds)))
   \<and> extractPackageFile isVersion content packageFile registryAliases
        \<noteq> Inr (Some (PackageFileContent []))"
  by (auto simp: extractPackageFile_def split: sum.splits)

theorem extractPackageFile_null_iff_no_deps_witness:
  "extractPackageFile (\<lambda>v. False) ''RUN echo hello'' ''Earthfile'' [] = Inr None
   \<and> extractDeps (\<lambda>v. False) ''RUN echo hello'' [] = Inr []"
proof -
  have "extractDeps (\<lambda>v. False) ''RUN echo hello'' [] = Inr []"
    by code_simp
  with extractPackageFile_null_iff_no_deps
         [of "\<lambda>v. False" "''RUN echo hello''" "[]" "''Earthfile''"]
  show ?thesis
    by simp
qed

subsection \<open>A reference without a target header\<close>

text \<open>
  C9. The content \<^verbatim>\<open>FROM alpine:3.18\<close>, which has no target header, gives exactly one
  descriptor: its \<open>depName\<close> is \<^verbatim>\<open>alpine\<close>, its \<open>currentValue\<close> is \<^verbatim>\<open>3.18\<close>, its
  \<open>datasource\<close> is the identifier of the Docker datasource and its \<open>depType\<close> is
  \<^verbatim>\<open>base\<close>, the value that \<open>currentTarget\<close> has before the first header.
\<close>

theorem extract_from_alpine:
  "extractPackageFile isVersion ''FROM alpine:3.18'' packageFile [] =
     Inr (Some (PackageFileContent
       [\<lparr>depName = Some ''alpine'', packageName = None,
         currentValue = Some ''3.18'', currentDigest = None,
         datasource = Some DockerDatasource_id, versioning = None,
         depType = Some (currentTarget initialState), skipReason = None,
         replaceString = Some ''alpine:3.18'',
         autoReplaceStringTemplate = Some depNameTemplate\<rparr>]))
   \<and> currentTarget initialState = ''base''"
  by code_simp

subsection \<open>A continuation marker on the last line\<close>

text \<open>
  C7. Extraction is claimed never to throw. The instruction \<^verbatim>\<open>FROM alpine:3.18\<close>, a blank
  and a backslash, on the last line of a file ends with a continuation marker: the loop that reads the
  instruction moves \<open>lineNumber\<close> past the last line, and \<open>processDepForAutoReplace\<close> then
  reads \<open>lines[lineNumber]\<close>, which does not exist, and calls \<open>includes\<close> on it.
\<close>

theorem extract_trailing_continuation_throws:
  "extractPackageFile isVersion (''FROM alpine:3.18 '' @ [CHR 0x5C]) packageFile []
     = Inl TypeError"
  by code_simp

subsection \<open>Digest and tag\<close>

lemma tagSplit_plain:
  assumes "CHR ''$'' \<notin> set s" and "splitOn (CHR ''@'') s = r # ds"
  shows "splitImageParts s =
     (let depTagSplit = splitOn (CHR '':'') r;
          dg = (case ds of [] \<Rightarrow> None | d # x \<Rightarrow> Some d)
      in if length depTagSplit = 1 \<or> strIncludes (last depTagSplit) ''/''
         then emptyDep\<lparr>depName := Some r, currentDigest := dg\<rparr>
         else emptyDep\<lparr>depName := Some (joinWith '':'' (butlast depTagSplit)),
                        currentValue := Some (last depTagSplit), currentDigest := dg\<rparr>)"
  using assms
  by (cases ds) (simp_all add: splitImageParts_def variableMarker_def strIncludes_single Let_def)

lemma parts_no_at:
  assumes "CHR ''$'' \<notin> set r" and "CHR ''@'' \<notin> set r"
  shows "currentDigest (splitImageParts r) = None"
  using tagSplit_plain [OF assms(1) splitOn_notin [OF assms(2)]]
  by (simp add: Let_def emptyDep_def)

lemma parts_one_at:
  assumes "CHR ''$'' \<notin> set (r @ g @ rest)" and "CHR ''@'' \<notin> set r" and "CHR ''@'' \<notin> set g"
  shows "currentDigest (splitImageParts (r @ ''@'' @ g)) = Some g"
    and "depName (splitImageParts (r @ ''@'' @ g)) = depName (splitImageParts r)"
    and "currentValue (splitImageParts (r @ ''@'' @ g)) = currentValue (splitImageParts r)"
    and "currentDigest (splitImageParts (r @ ''@'' @ g @ ''@'' @ rest)) = Some g"
    and "depName (splitImageParts (r @ ''@'' @ g @ ''@'' @ rest)) = depName (splitImageParts r)"
    and "currentValue (splitImageParts (r @ ''@'' @ g @ ''@'' @ rest)) = currentValue (splitImageParts r)"
proof -
  have d: "CHR ''$'' \<notin> set r" "CHR ''$'' \<notin> set (r @ ''@'' @ g)"
     "CHR ''$'' \<notin> set (r @ ''@'' @ g @ ''@'' @ rest)"
    using assms(1) by auto
  have s0: "splitOn (CHR ''@'') r = [r]"
    using assms(2) by (rule splitOn_notin)
  have s1: "splitOn (CHR ''@'') (r @ ''@'' @ g) = [r, g]"
    using assms(2,3) by (simp add: splitOn_append splitOn_notin)
  have s2: "splitOn (CHR ''@'') (r @ ''@'' @ g @ ''@'' @ rest) = r # g # splitOn (CHR ''@'') rest"
    using assms(2,3) by (simp add: splitOn_append)
  note t0 = tagSplit_plain [OF d(1) s0] and t1 = tagSplit_plain [OF d(2) s1]
    and t2 = tagSplit_plain [OF d(3) s2]
  show "currentDigest (splitImageParts (r @ ''@'' @ g)) = Some g"
    using t1 by (simp add: Let_def emptyDep_def)
  show "depName (splitImageParts (r @ ''@'' @ g)) = depName (splitImageParts r)"
    using t1 t0 by (simp add: Let_def emptyDep_def)
  show "currentValue (splitImageParts (r @ ''@'' @ g)) = currentValue (splitImageParts r)"
    using t1 t0 by (simp add: Let_def emptyDep_def)
  show "currentDigest (splitImageParts (r @ ''@'' @ g @ ''@'' @ rest)) = Some g"
    using t2 by (simp add: Let_def emptyDep_def)
  show "depName (splitImageParts (r @ ''@'' @ g @ ''@'' @ rest)) = depName (splitImageParts r)"
    using t2 t0 by (simp add: Let_def emptyDep_def)
  show "currentValue (splitImageParts (r @ ''@'' @ g @ ''@'' @ rest)) = currentValue (splitImageParts r)"
    using t2 t0 by (simp add: Let_def emptyDep_def)
qed

lemma parts_no_colon:
  assumes "CHR ''$'' \<notin> set t" and "CHR ''@'' \<notin> set t" and "CHR '':'' \<notin> set t"
  shows "depName (splitImageParts t) = Some t \<and> currentValue (splitImageParts t) = None"
  using tagSplit_plain [OF assms(1) splitOn_notin [OF assms(2)]]
  by (simp add: Let_def emptyDep_def splitOn_notin [OF assms(3)])

lemma parts_colon:
  assumes "CHR ''$'' \<notin> set (n @ t)" and "CHR ''@'' \<notin> set (n @ t)" and "CHR '':'' \<notin> set t"
  shows "CHR ''/'' \<in> set t \<Longrightarrow>
           depName (splitImageParts (n @ '':'' @ t)) = Some (n @ '':'' @ t)
           \<and> currentValue (splitImageParts (n @ '':'' @ t)) = None"
    and "CHR ''/'' \<notin> set t \<Longrightarrow>
           depName (splitImageParts (n @ '':'' @ t)) = Some n
           \<and> currentValue (splitImageParts (n @ '':'' @ t)) = Some t"
proof -
  have d: "CHR ''$'' \<notin> set (n @ '':'' @ t)" and a: "CHR ''@'' \<notin> set (n @ '':'' @ t)"
    using assms(1,2) by auto
  have sp: "splitOn (CHR '':'') (n @ '':'' @ t) = splitOn (CHR '':'') n @ [t]"
    using assms(3) by (simp add: splitOn_snoc)
  have ne: "splitOn (CHR '':'') n \<noteq> []"
    by (rule splitOn_nonempty)
  have len: "length (splitOn (CHR '':'') n @ [t]) \<noteq> 1"
    using ne by (cases "splitOn (CHR '':'') n") auto
  note ts = tagSplit_plain [OF d splitOn_notin [OF a]]
  show "CHR ''/'' \<in> set t \<Longrightarrow>
           depName (splitImageParts (n @ '':'' @ t)) = Some (n @ '':'' @ t)
           \<and> currentValue (splitImageParts (n @ '':'' @ t)) = None"
    using len ts sp by (simp add: Let_def emptyDep_def strIncludes_single)
  show "CHR ''/'' \<notin> set t \<Longrightarrow>
           depName (splitImageParts (n @ '':'' @ t)) = Some n
           \<and> currentValue (splitImageParts (n @ '':'' @ t)) = Some t"
    using len ts sp joinWith_splitOn [of "CHR '':''" n]
    by (simp add: Let_def emptyDep_def strIncludes_single)
qed

text \<open>
  C6, as amended. For a text without variable marker, \<open>splitImageParts\<close> splits at every
  \<^verbatim>\<open>@\<close>: the text before the first \<^verbatim>\<open>@\<close> is the remainder with the name and the tag, the
  text between the first and the second \<^verbatim>\<open>@\<close> is the digest, and what follows a second
  \<^verbatim>\<open>@\<close> is dropped; there is no digest without \<^verbatim>\<open>@\<close>. The remainder is split at its
  colons: the text \<open>t\<close> after the last colon is the tag and the text \<open>n\<close> before it the
  name, unless \<open>t\<close> contains a slash; then, and when the remainder has no colon, the
  whole remainder is the name and there is no tag.
\<close>

theorem splitImageParts_digest_and_tag:
  assumes "CHR ''$'' \<notin> set (n @ t @ g @ rest)"
    and "CHR ''@'' \<notin> set (n @ t @ g)"
    and "CHR '':'' \<notin> set t"
    and "r = t \<or> r = n @ '':'' @ t"
  shows "currentDigest (splitImageParts r) = None
    \<and> currentDigest (splitImageParts (r @ ''@'' @ g)) = Some g
    \<and> currentDigest (splitImageParts (r @ ''@'' @ g @ ''@'' @ rest)) = Some g
    \<and> depName (splitImageParts (r @ ''@'' @ g)) = depName (splitImageParts r)
    \<and> depName (splitImageParts (r @ ''@'' @ g @ ''@'' @ rest)) = depName (splitImageParts r)
    \<and> currentValue (splitImageParts (r @ ''@'' @ g)) = currentValue (splitImageParts r)
    \<and> currentValue (splitImageParts (r @ ''@'' @ g @ ''@'' @ rest))
        = currentValue (splitImageParts r)
    \<and> depName (splitImageParts t) = Some t
    \<and> currentValue (splitImageParts t) = None
    \<and> depName (splitImageParts (n @ '':'' @ t))
        = (if CHR ''/'' \<in> set t then Some (n @ '':'' @ t) else Some n)
    \<and> currentValue (splitImageParts (n @ '':'' @ t))
        = (if CHR ''/'' \<in> set t then None else Some t)"
proof -
  have rd: "CHR ''$'' \<notin> set (r @ g @ rest)" and ra: "CHR ''@'' \<notin> set r"
    and rd0: "CHR ''$'' \<notin> set r" and ga: "CHR ''@'' \<notin> set g"
    using assms by auto
  have td: "CHR ''$'' \<notin> set t" and ta: "CHR ''@'' \<notin> set t"
    and ntd: "CHR ''$'' \<notin> set (n @ t)" and nta: "CHR ''@'' \<notin> set (n @ t)"
    using assms by auto
  show ?thesis
    using parts_no_at [OF rd0 ra] parts_one_at [OF rd ra ga]
      parts_no_colon [OF td ta assms(3)] parts_colon [OF ntd nta assms(3)]
    by simp
qed

theorem splitImageParts_digest_and_tag_witness:
  "currentDigest (splitImageParts ''a:1@b@c'') = Some ''b''
   \<and> depName (splitImageParts ''a:1@b@c'') = Some ''a''
   \<and> currentValue (splitImageParts ''a:1@b@c'') = Some ''1''
   \<and> depName (splitImageParts ''host:5000/img'') = Some ''host:5000/img''"
proof -
  have "currentDigest (splitImageParts (''a:1'' @ ''@'' @ ''b'' @ ''@'' @ ''c'')) = Some ''b''"
    and "depName (splitImageParts (''a:1'' @ ''@'' @ ''b'' @ ''@'' @ ''c''))
          = depName (splitImageParts ''a:1'')"
    and "currentValue (splitImageParts (''a:1'' @ ''@'' @ ''b'' @ ''@'' @ ''c''))
          = currentValue (splitImageParts ''a:1'')"
    and "depName (splitImageParts (''a'' @ '':'' @ ''1'')) = Some ''a''"
    and "currentValue (splitImageParts (''a'' @ '':'' @ ''1'')) = Some ''1''"
    using splitImageParts_digest_and_tag [of "''a''" "''1''" "''b''" "''c''" "''a:1''"]
    by simp_all
  moreover have "depName (splitImageParts (''host'' @ '':'' @ ''5000/img'')) = Some ''host:5000/img''"
    using splitImageParts_digest_and_tag [of "''host''" "''5000/img''" "''''" "''''" "''5000/img''"]
    by simp
  ultimately show ?thesis
    by simp
qed

text \<open>
  C6 as stated has the digest after the last \<^verbatim>\<open>@\<close>: for \<^verbatim>\<open>a@b@c\<close> the digest would be
  \<^verbatim>\<open>c\<close> and the remainder \<^verbatim>\<open>a@b\<close>.
\<close>

theorem splitImageParts_last_at_counterexample:
  "currentDigest (splitImageParts ''a@b@c'') = Some ''b''
   \<and> currentDigest (splitImageParts ''a@b@c'') \<noteq> Some ''c''
   \<and> depName (splitImageParts ''a@b@c'') = Some ''a''
   \<and> depName (splitImageParts ''a@b@c'') \<noteq> Some ''a@b''"
  by code_simp

subsection \<open>Substitution of a variable\<close>




subsection \<open>A reference through a declaration\<close>

text \<open>
  C4, as amended. The content \<^verbatim>\<open>ARG BASE=golang:1.20\<close>, line feed, \<^verbatim>\<open>FROM ${BASE}\<close> gives
  exactly one descriptor, with the \<open>depName\<close> \<^verbatim>\<open>golang\<close> and the \<open>currentValue\<close> \<^verbatim>\<open>1.20\<close>;
  its \<open>replaceString\<close> is the line of the declaration followed by one line feed, the only
  line that contains the value.
\<close>

theorem extract_arg_reference:
  "extractPackageFile isVersion (''ARG BASE=golang:1.20'' @ [CHR 0x0A] @ ''FROM ${BASE}'')
     packageFile []
   = Inr (Some (PackageFileContent
       [\<lparr>depName = Some ''golang'', packageName = None,
         currentValue = Some ''1.20'', currentDigest = None,
         datasource = Some DockerDatasource_id, versioning = None,
         depType = Some ''base'', skipReason = None,
         replaceString = Some (''ARG BASE=golang:1.20'' @ [CHR 0x0A]),
         autoReplaceStringTemplate =
           Some (''ARG BASE=golang:{{#if newValue}}{{newValue}}{{/if}}{{#if newDigest}}''
                 @ CHR 0x40 # ''{{newDigest}}{{/if}}'' @ [CHR 0x0A])\<rparr>]))"
  by code_simp

text \<open>
  C4 as stated has a \<open>replaceString\<close> that spans both lines: it does not reach into the
  line of the \<open>FROM\<close> instruction.
\<close>

theorem extract_arg_reference_span_counterexample:
  "extractDeps noVersion (''ARG BASE=golang:1.20'' @ [CHR 0x0A] @ ''FROM ${BASE}'') []
   = Inr [\<lparr>depName = Some ''golang'', packageName = None,
         currentValue = Some ''1.20'', currentDigest = None,
         datasource = Some DockerDatasource_id, versioning = None,
         depType = Some ''base'', skipReason = None,
         replaceString = Some (''ARG BASE=golang:1.20'' @ [CHR 0x0A]),
         autoReplaceStringTemplate =
           Some (''ARG BASE=golang:{{#if newValue}}{{newValue}}{{/if}}{{#if newDigest}}''
                 @ CHR 0x40 # ''{{newDigest}}{{/if}}'' @ [CHR 0x0A])\<rparr>]
   \<and> \<not> strIncludes (''ARG BASE=golang:1.20'' @ [CHR 0x0A]) ''FROM ${BASE}''
   \<and> \<not> strIncludes (''ARG BASE=golang:1.20'' @ [CHR 0x0A]) ''FROM''"
  by code_simp

subsection \<open>The pseudo-image scratch\<close>

text \<open>
  C8. A candidate equal to \<^verbatim>\<open>scratch\<close> gives no descriptor and no error, and leaves the
  run as it was; the content \<^verbatim>\<open>FROM scratch\<close>, whose only reference it is, gives no
  descriptor, and \<open>extractPackageFile\<close> returns \<open>null\<close> on it.
\<close>

theorem scratch_is_dropped:
  "processImage isVersion registryAliases lines lineFeed instrRange st ''scratch'' = Inr None
   \<and> processImages isVersion registryAliases lines lineFeed instrRange st (''scratch'' # images)
       = processImages isVersion registryAliases lines lineFeed instrRange st images
   \<and> instructionImages ''FROM scratch'' = [''scratch'']
   \<and> extractDeps isVersion ''FROM scratch'' registryAliases = Inr []
   \<and> extractPackageFile isVersion ''FROM scratch'' packageFile registryAliases = Inr None"
proof -
  have a: "processImage isVersion registryAliases lines lineFeed instrRange st ''scratch''
             = Inr None"
    for lines lineFeed instrRange st
    by (simp add: processImage_def resolveVariables_def variableMarker_def strIncludes_single)
  have b: "instructionImages ''FROM scratch'' = [''scratch'']"
    by code_simp
  have c: "extractDeps isVersion ''FROM scratch'' registryAliases = Inr []"
    by code_simp
  show ?thesis
    using a b c by (simp add: extractPackageFile_def)
qed

subsection \<open>Matching moves forward\<close>

lemma repeatMatcher_rel:
  assumes step: "\<And>x y. y \<in> set (m x) \<Longrightarrow> R x y"
    and refl: "\<And>x. R x x"
    and trans: "\<And>x y z. R x y \<Longrightarrow> R y z \<Longrightarrow> R x z"
  shows "y \<in> set (repeatMatcher m lo hi greedy x) \<Longrightarrow> R x y"
  using step
proof (induction m lo hi greedy x arbitrary: y rule: repeatMatcher.induct)
  case (1 m lo hi greedy x)
  note step = "1.prems"(2)
  show ?case
  proof (cases "hi = Some 0")
    case True
    then have "repeatMatcher m lo hi greedy x = [x]"
      by (subst repeatMatcher.simps) simp
    with "1.prems"(1) show ?thesis
      by (simp add: refl)
  next
    case False
    from "1.prems"(1) False
    consider "y = x" | z where "z \<in> set (m x)"
        "\<not> (lo = 0 \<and> \<not> length (fst (snd z)) < length (fst (snd x)))"
        "y \<in> set (repeatMatcher m (lo - 1) (map_option (\<lambda>h. h - 1) hi) greedy z)"
      by (auto simp: repeatMatcher.simps [of m lo hi greedy x] Let_def split: if_splits)
    then show ?thesis
    proof cases
      case 1
      then show ?thesis by (simp add: refl)
    next
      case 2
      from "1.IH" [OF False 2(1) 2(2) 2(3) step] step [OF 2(1)] show ?thesis
        by (rule trans [rotated])
    qed
  qed
qed

lemma matchStr_suffix: "matchStr ic cs p s = Some (p', s') \<Longrightarrow> \<exists>u. s = u @ s' \<and> length u = length cs"
proof (induction ic cs p s rule: matchStr.induct)
  case (3 ic c cs p d ds)
  then obtain u where "ds = u @ s'" "length u = length cs"
    by (auto split: if_splits)
  then have "d # ds = (d # u) @ s' \<and> length (d # u) = length (c # cs)"
    by simp
  then show ?case by blast
qed auto

lemma rmatch_suffix: "y \<in> set (rmatch f r x) \<Longrightarrow> \<exists>u. restOf x = u @ restOf y"
proof (induction r arbitrary: x y)
  case Eps
  then show ?case by simp
next
  case (Lit c)
  then show ?case
    by (cases x) (auto simp: restOf_def split: list.splits if_splits)
next
  case (Str cs)
  then show ?case
    by (cases x) (auto simp: restOf_def split: option.splits dest: matchStr_suffix [OF sym])
next
  case (Cls P)
  then show ?case
    by (cases x) (auto simp: restOf_def split: list.splits if_splits)
next
  case Bol
  then show ?case
    by (cases x) (auto simp: restOf_def split: option.splits if_splits)
next
  case Eol
  then show ?case
    by (cases x) (auto simp: restOf_def split: list.splits if_splits)
next
  case (Seq r1 r2)
  then obtain z where "z \<in> set (rmatch f r1 x)" "y \<in> set (rmatch f r2 z)"
    by auto
  with Seq.IH obtain u v where "restOf x = u @ restOf z" "restOf z = v @ restOf y"
    by blast
  then have "restOf x = (u @ v) @ restOf y"
    by simp
  then show ?case by blast
next
  case (Alt r1 r2)
  from Alt.prems have "y \<in> set (rmatch f r1 x) \<or> y \<in> set (rmatch f r2 x)"
    by simp
  then show ?case
    using Alt.IH by blast
next
  case (Rep lo hi greedy r)
  have "\<exists>u. restOf x = u @ restOf y"
    if "y \<in> set (repeatMatcher (rmatch f r) lo hi greedy x)"
    using _ _ _ that
  proof (rule repeatMatcher_rel [where R = "\<lambda>x y. \<exists>u. restOf x = u @ restOf y"])
    show "\<And>x y. y \<in> set (rmatch f r x) \<Longrightarrow> \<exists>u. restOf x = u @ restOf y"
      by (rule Rep.IH)
    show "\<And>x. \<exists>u. restOf x = u @ restOf x"
      by simp
    show "\<And>x y z. \<exists>u. restOf x = u @ restOf y \<Longrightarrow> \<exists>u. restOf y = u @ restOf z
            \<Longrightarrow> \<exists>u. restOf x = u @ restOf z"
      by (metis append.assoc)
  qed
  with Rep.prems show ?case by simp
next
  case (Grp n r)
  then obtain z where z: "z \<in> set (rmatch f r x)" and "restOf y = restOf z"
    by (auto simp: restOf_def)
  with Grp.IH [OF z] show ?case by simp
qed

lemma rmatch_length: "y \<in> set (rmatch f r x) \<Longrightarrow> length (restOf y) \<le> length (restOf x)"
  by (drule rmatch_suffix) auto

lemma rmatch_consumes:
  "consuming r \<Longrightarrow> y \<in> set (rmatch f r x) \<Longrightarrow> length (restOf y) < length (restOf x)"
proof (induction r arbitrary: x y)
  case (Str cs)
  then show ?case
    by (cases x) (auto simp: restOf_def split: option.splits dest!: matchStr_suffix [OF sym])
next
  case (Seq r1 r2)
  from Seq.prems obtain z where z: "z \<in> set (rmatch f r1 x)" "y \<in> set (rmatch f r2 z)"
    by auto
  from Seq.prems(1) show ?case
    using Seq.IH(1) [OF _ z(1)] Seq.IH(2) [OF _ z(2)] rmatch_length [OF z(1)] rmatch_length [OF z(2)]
    by auto
next
  case (Alt r1 r2)
  from Alt.prems have "y \<in> set (rmatch f r1 x) \<or> y \<in> set (rmatch f r2 x)"
    and "consuming r1" and "consuming r2"
    by simp_all
  then show ?case
    using Alt.IH by blast
next
  case (Rep lo hi greedy r)
  then have lo: "0 < lo" and hi: "hi \<noteq> Some 0" and c: "consuming r"
    by auto
  from Rep.prems(2) lo hi obtain z where z: "z \<in> set (rmatch f r x)"
    "y \<in> set (repeatMatcher (rmatch f r) (lo - 1) (map_option (\<lambda>h. h - 1) hi) greedy z)"
    by (auto simp: repeatMatcher.simps [of _ lo hi greedy x] Let_def split: if_splits)
  have "length (restOf y) \<le> length (restOf z)"
    using _ _ _ z(2)
  proof (rule repeatMatcher_rel [where R = "\<lambda>x y. length (restOf y) \<le> length (restOf x)"])
    show "\<And>x y. y \<in> set (rmatch f r x) \<Longrightarrow> length (restOf y) \<le> length (restOf x)"
      by (rule rmatch_length)
  qed auto
  with Rep.IH [OF c z(1)] show ?case by simp
next
  case (Grp n r)
  then obtain z where z: "z \<in> set (rmatch f r x)" and "restOf y = restOf z"
    by (auto simp: restOf_def)
  with Grp.IH [OF _ z] Grp.prems(1) show ?case by simp
next
  case (Lit c)
  then show ?case
    by (cases x) (auto simp: restOf_def split: list.splits if_splits)
next
  case (Cls P)
  then show ?case
    by (cases x) (auto simp: restOf_def split: list.splits if_splits)
qed simp_all

lemma rsearch_consumes:
  "consuming r \<Longrightarrow> rsearch f r i p s = Some m \<Longrightarrow> length (matchRest m) < length s"
proof (induction f r i p s rule: rsearch.induct)
  case (1 f r i p s)
  show ?case
  proof (cases "rmatch f r (p, s, [])")
    case Nil
    with "1.prems" obtain c cs where s: "s = c # cs" and "rsearch f r (Suc i) (Some c) cs = Some m"
      by (auto simp: rsearch.simps [of f r i p s] split: list.splits)
    with "1.IH" [OF Nil s "1.prems"(1)] show ?thesis
      by simp
  next
    case (Cons y ys)
    obtain p' s' caps where y: "y = (p', s', caps)"
      by (cases y)
    with Cons "1.prems"(2) have "matchRest m = s'"
      by (auto simp: rsearch.simps [of f r i p s])
    moreover have "length (restOf y) < length (restOf (p, s, []))"
      using rmatch_consumes [OF "1.prems"(1), of y f "(p, s, [])"] Cons by simp
    ultimately show ?thesis
      using y by (simp add: restOf_def)
  qed
qed

lemma variableRegex_consumes:
  "rsearch f variableRegex i p s = Some m \<Longrightarrow> length (matchRest m) < length s"
  by (rule rsearch_consumes) (simp_all add: variableRegex_def rePlus_def reOpt_def)

lemma imageRegex_consumes:
  "rsearch f imageRegex i p s = Some m \<Longrightarrow> length (matchRest m) < length s"
  by (rule rsearch_consumes) (simp_all add: imageRegex_def)

lemma continues_empty: "\<not> continues instruction []"
proof -
  have "regexTest flagsM lineContinuationRegex [] = False"
    by code_simp
  then show ?thesis
    by (simp add: continues_def)
qed

subsection \<open>Skip reason and name\<close>

























subsection \<open>Rendering the template of a descriptor\<close>

















subsection \<open>The first match of a pattern\<close>










lemma lazyPlus_miss: "rmatch f r x = [] \<Longrightarrow> rmatch f (reLazyPlus r) x = []"
  by (simp add: reLazyPlus_def) (subst repeatMatcher.simps, simp)









subsection \<open>Patterns that cannot match\<close>

















subsection \<open>A line with a reference to a variable\<close>













subsection \<open>Declarations after the reference\<close>






end
